theory Spec2Isabelle
  imports Main
begin

section \<open>The syntax tree the parser walks\<close>

text \<open>
  \<^verbatim>\<open>src/parser/mcpSpecParser.ts\<close> walks the syntax tree that the TypeScript compiler
  API builds for the schema file. The tree is modelled with exactly the node kinds and
  properties the parser inspects. Every type node carries the source text that
  \<^verbatim>\<open>getText()\<close> returns for it; a type reference carries the text of its
  \<^verbatim>\<open>typeName\<close> and its \<^verbatim>\<open>typeArguments\<close>, which are \<^verbatim>\<open>undefined\<close>
  (\<open>None\<close>) when the reference has no argument list.
\<close>

datatype type_node =
    ArrayTypeNode string type_node
  | TypeReferenceNode string string "type_node list option"
  | UnionTypeNode string "type_node list"
  | OtherTypeNode string

fun getText :: "type_node \<Rightarrow> string" where
  "getText (ArrayTypeNode txt el) = txt"
| "getText (TypeReferenceNode txt nm args) = txt"
| "getText (UnionTypeNode txt ts) = txt"
| "getText (OtherTypeNode txt) = txt"

fun isArrayTypeNode :: "type_node \<Rightarrow> bool" where
  "isArrayTypeNode (ArrayTypeNode txt el) = True"
| "isArrayTypeNode n = False"

fun isTypeReferenceNode :: "type_node \<Rightarrow> bool" where
  "isTypeReferenceNode (TypeReferenceNode txt nm args) = True"
| "isTypeReferenceNode n = False"

fun isUnionTypeNode :: "type_node \<Rightarrow> bool" where
  "isUnionTypeNode (UnionTypeNode txt ts) = True"
| "isUnionTypeNode n = False"

text \<open>
  The property reads. Each is used by the parser only behind the matching
  \<^verbatim>\<open>ts.isXxx\<close> guard; on another node kind JavaScript reads \<^verbatim>\<open>undefined\<close>.
\<close>

fun elementType :: "type_node \<Rightarrow> type_node option" where
  "elementType (ArrayTypeNode txt el) = Some el"
| "elementType n = None"

fun typeName_getText :: "type_node \<Rightarrow> string" where
  "typeName_getText (TypeReferenceNode txt nm args) = nm"
| "typeName_getText n = []"

fun typeArguments :: "type_node \<Rightarrow> type_node list option" where
  "typeArguments (TypeReferenceNode txt nm args) = args"
| "typeArguments n = None"

fun types :: "type_node \<Rightarrow> type_node list" where
  "types (UnionTypeNode txt ts) = ts"
| "types n = []"

text \<open>
  \<^verbatim>\<open>xs[i]\<close> on a JavaScript array: \<^verbatim>\<open>undefined\<close> past the end, never an exception.
\<close>

definition js_index :: "'a list \<Rightarrow> nat \<Rightarrow> 'a option" where
  "js_index xs i = (if i < length xs then Some (xs ! i) else None)"

text \<open>
  \<^verbatim>\<open>ts.getJSDocCommentsAndTags(node)\<close> returns the documentation items attached to
  a node; a \<^verbatim>\<open>JSDoc\<close> item has an optional \<^verbatim>\<open>comment\<close>, which the parser
  casts to \<^verbatim>\<open>string | undefined\<close> and which is modelled as a text or nothing.
\<close>

datatype jsdoc_item = JSDoc "string option" | JSDocTag

text \<open>
  Interface members. A property signature has the source text of its name, its
  \<^verbatim>\<open>questionToken\<close> (present or not), its optional type annotation and its
  documentation items. Every other member kind (method, call, index signature) is
  skipped by the parser and carries nothing.
\<close>

datatype type_element =
    PropertySignature string bool "type_node option" "jsdoc_item list"
  | OtherTypeElement

datatype expression = StringLiteral string | OtherExpression

datatype binding_name = Identifier string | BindingPattern

datatype variable_declaration = VariableDeclaration binding_name "expression option"

datatype statement =
    VariableStatement "variable_declaration list"
  | InterfaceDeclaration string "jsdoc_item list" "type_element list"
  | OtherStatement

section \<open>The specification model\<close>

record McpOperation =
  op_name :: string
  op_description :: string
  op_inputType :: string
  op_outputType :: string
  op_required :: bool

record McpField =
  field_name :: string
  field_type :: string
  field_required :: bool
  field_repeated :: bool
  field_description :: string

record McpType =
  type_name :: string
  type_description :: string
  type_fields :: "McpField list"

record McpCapability =
  cap_name :: string
  cap_description :: string
  cap_required :: bool

record McpSpecification =
  spec_version :: string
  spec_operations :: "McpOperation list"
  spec_types :: "McpType list"
  spec_capabilities :: "McpCapability list"

section \<open>Extraction of names, types and documentation\<close>

text \<open>\<^verbatim>\<open>isRepeatedType\<close> (lines 385-404).\<close>

definition isRepeatedType :: "type_node option \<Rightarrow> bool" where
  "isRepeatedType typeNode =
     (case typeNode of
        None \<Rightarrow> False
      | Some n \<Rightarrow>
          if isArrayTypeNode n then True
          else if isTypeReferenceNode n \<and> typeName_getText n = ''Array'' \<and>
                  (case typeArguments n of None \<Rightarrow> False | Some args \<Rightarrow> length args > 0)
          then True
          else False)"

text \<open>
  \<^verbatim>\<open>extractFieldType\<close> (lines 346-378), branch for branch. The recursion descends
  into the element type of an array, the first type argument of \<^verbatim>\<open>Array<...>\<close>
  and the first alternative of a union.
\<close>

function extractFieldType :: "type_node option \<Rightarrow> string" where
  "extractFieldType typeNode =
     (case typeNode of
        None \<Rightarrow> ''any''
      | Some n \<Rightarrow>
          if isRepeatedType typeNode \<and> isArrayTypeNode n then
            extractFieldType (elementType n)
          else if isRepeatedType typeNode \<and> isTypeReferenceNode n \<and>
                  typeName_getText n = ''Array'' \<and>
                  (case typeArguments n of None \<Rightarrow> False | Some args \<Rightarrow> length args > 0) then
            extractFieldType (js_index (the (typeArguments n)) 0)
          else if isTypeReferenceNode n then typeName_getText n
          else if isUnionTypeNode n then extractFieldType (js_index (types n) 0)
          else getText n)"
  by pat_completeness auto

lemma size_nth_type_node:
  "i < length xs \<Longrightarrow> size (xs ! i :: type_node) \<le> size_list size xs"
proof (induction xs arbitrary: i)
  case Nil
  then show ?case by simp
next
  case (Cons a xs)
  show ?case
  proof (cases i)
    case 0
    then show ?thesis by simp
  next
    case (Suc j)
    with Cons.prems have "j < length xs" by simp
    from Cons.IH[OF this] Suc show ?thesis by simp
  qed
qed

termination extractFieldType
proof (relation "measure (\<lambda>t. case t of None \<Rightarrow> 0 | Some n \<Rightarrow> Suc (size n))")
  show "wf (measure (\<lambda>t. case t of None \<Rightarrow> 0 | Some n \<Rightarrow> Suc (size n)))"
    by simp
next
  fix typeNode :: "type_node option" and n
  assume "typeNode = Some n" "isRepeatedType typeNode \<and> isArrayTypeNode n"
  then show "(elementType n, typeNode)
      \<in> measure (\<lambda>t. case t of None \<Rightarrow> 0 | Some n \<Rightarrow> Suc (size n))"
    by (cases n) auto
next
  fix typeNode :: "type_node option" and n
  assume "typeNode = Some n"
  then show "(js_index (the (typeArguments n)) 0, typeNode)
      \<in> measure (\<lambda>t. case t of None \<Rightarrow> 0 | Some n \<Rightarrow> Suc (size n))"
    if "isRepeatedType typeNode \<and> isTypeReferenceNode n \<and> typeName_getText n = ''Array'' \<and>
        (case typeArguments n of None \<Rightarrow> False | Some args \<Rightarrow> 0 < length args)"
    using that
    by (cases n)
      (auto simp: js_index_def less_Suc_eq_le intro: le_SucI size_nth_type_node
        split: option.splits)
next
  fix typeNode :: "type_node option" and n
  assume "typeNode = Some n" "isUnionTypeNode n"
  then show "(js_index (types n) 0, typeNode)
      \<in> measure (\<lambda>t. case t of None \<Rightarrow> 0 | Some n \<Rightarrow> Suc (size n))"
    by (cases n) (auto simp: js_index_def less_Suc_eq_le intro: le_SucI size_nth_type_node)
qed

declare extractFieldType.simps [simp del]

text \<open>
  \<^verbatim>\<open>extractInputType\<close> and \<^verbatim>\<open>extractOutputType\<close> (lines 322-339): the text of the
  first and of the second type argument, \<^verbatim>\<open>'any'\<close> when there is none.
\<close>

definition extractInputType :: "type_node \<Rightarrow> string" where
  "extractInputType typeNode =
     (case typeArguments typeNode of
        None \<Rightarrow> ''any''
      | Some args \<Rightarrow> if length args > 0 then getText (args ! 0) else ''any'')"

definition extractOutputType :: "type_node \<Rightarrow> string" where
  "extractOutputType typeNode =
     (case typeArguments typeNode of
        None \<Rightarrow> ''any''
      | Some args \<Rightarrow> if length args > 1 then getText (args ! 1) else ''any'')"

text \<open>
  \<^verbatim>\<open>getJSDocComment\<close> (lines 411-421), applied to the documentation items of a node:
  the comment of the first item when that item is a \<^verbatim>\<open>JSDoc\<close> block.
\<close>

definition getJSDocComment :: "jsdoc_item list \<Rightarrow> string option" where
  "getJSDocComment jsDocComments =
     (if length jsDocComments > 0 then
        (case jsDocComments ! 0 of JSDoc comment \<Rightarrow> comment | JSDocTag \<Rightarrow> None)
      else None)"

text \<open>
  \<^verbatim>\<open>description || fallback\<close>: the fallback is taken when the description is
  \<^verbatim>\<open>undefined\<close> or the empty string, the two falsy values a
  \<^verbatim>\<open>string | undefined\<close> has.
\<close>

definition js_or :: "string option \<Rightarrow> string \<Rightarrow> string" where
  "js_or description fallback =
     (case description of
        None \<Rightarrow> fallback
      | Some s \<Rightarrow> if s = [] then fallback else s)"

text \<open>
  \<^verbatim>\<open>.replace(/['"]/g, '')\<close>: every single quote (0x27) and double quote (0x22) is
  removed.
\<close>

definition replace_quotes :: "string \<Rightarrow> string" where
  "replace_quotes s = filter (\<lambda>c. c \<noteq> CHR 0x27 \<and> c \<noteq> CHR 0x22) s"

text \<open>\<^verbatim>\<open>s.endsWith(suffix)\<close>.\<close>

definition endsWith :: "string \<Rightarrow> string \<Rightarrow> bool" where
  "endsWith s suffix =
     (length suffix \<le> length s \<and> drop (length s - length suffix) s = suffix)"

section \<open>The three interface walkers\<close>

text \<open>
  Each walker is a \<^verbatim>\<open>forEach\<close> over the members of an interface whose callback
  builds an object literal and pushes it onto an array. The object literal is a
  definition of its own, the callback is a function from the array so far and the member
  to the array after it, and the loop is a left fold.

  \<^verbatim>\<open>parseOperationsInterface\<close> (lines 235-254).
\<close>

definition parseOperationsInterface_operation ::
  "string \<Rightarrow> bool \<Rightarrow> type_node \<Rightarrow> jsdoc_item list \<Rightarrow> McpOperation" where
  "parseOperationsInterface_operation name questionToken member_type jsDoc =
     (let operationName = replace_quotes name;
          description = getJSDocComment jsDoc
      in \<lparr>op_name = operationName,
          op_description = js_or description (''MCP '' @ operationName @ '' operation''),
          op_inputType = extractInputType member_type,
          op_outputType = extractOutputType member_type,
          op_required = (\<not> questionToken)\<rparr>)"

definition parseOperationsInterface_member ::
  "McpOperation list \<Rightarrow> type_element \<Rightarrow> McpOperation list" where
  "parseOperationsInterface_member operations member =
     (case member of
        OtherTypeElement \<Rightarrow> operations
      | PropertySignature name questionToken member_type jsDoc \<Rightarrow>
          (case member_type of
             None \<Rightarrow> operations
           | Some t \<Rightarrow>
               if isTypeReferenceNode t then
                 operations @ [parseOperationsInterface_operation name questionToken t jsDoc]
               else operations))"

definition parseOperationsInterface ::
  "type_element list \<Rightarrow> McpOperation list \<Rightarrow> McpOperation list" where
  "parseOperationsInterface members operations =
     foldl parseOperationsInterface_member operations members"

text \<open>\<^verbatim>\<open>parseTypeInterface\<close> (lines 261-293).\<close>

definition parseTypeInterface_field ::
  "string \<Rightarrow> bool \<Rightarrow> type_node option \<Rightarrow> jsdoc_item list \<Rightarrow> McpField" where
  "parseTypeInterface_field name questionToken member_type jsDoc =
     (let fieldName = replace_quotes name;
          fieldDescription = getJSDocComment jsDoc;
          isRepeated = isRepeatedType member_type
      in \<lparr>field_name = fieldName,
          field_type = extractFieldType member_type,
          field_required = (\<not> questionToken),
          field_repeated = isRepeated,
          field_description = js_or fieldDescription (fieldName @ '' field'')\<rparr>)"

definition parseTypeInterface_member ::
  "McpField list \<Rightarrow> type_element \<Rightarrow> McpField list" where
  "parseTypeInterface_member fieldArray member =
     (case member of
        OtherTypeElement \<Rightarrow> fieldArray
      | PropertySignature name questionToken member_type jsDoc \<Rightarrow>
          fieldArray @ [parseTypeInterface_field name questionToken member_type jsDoc])"

definition parseTypeInterface ::
  "string \<Rightarrow> jsdoc_item list \<Rightarrow> type_element list \<Rightarrow> McpType option" where
  "parseTypeInterface typeName jsDoc members =
     (let description = getJSDocComment jsDoc;
          fieldArray = foldl parseTypeInterface_member [] members
      in if length fieldArray = 0 then None
         else Some \<lparr>type_name = typeName,
                    type_description = js_or description (''MCP '' @ typeName),
                    type_fields = fieldArray\<rparr>)"

text \<open>\<^verbatim>\<open>parseCapabilitiesInterface\<close> (lines 300-315).\<close>

definition parseCapabilitiesInterface_capability ::
  "string \<Rightarrow> bool \<Rightarrow> jsdoc_item list \<Rightarrow> McpCapability" where
  "parseCapabilitiesInterface_capability name questionToken jsDoc =
     (let capabilityName = replace_quotes name;
          description = getJSDocComment jsDoc
      in \<lparr>cap_name = capabilityName,
          cap_description = js_or description (''MCP '' @ capabilityName @ '' capability''),
          cap_required = (\<not> questionToken)\<rparr>)"

definition parseCapabilitiesInterface_member ::
  "McpCapability list \<Rightarrow> type_element \<Rightarrow> McpCapability list" where
  "parseCapabilitiesInterface_member capabilities member =
     (case member of
        OtherTypeElement \<Rightarrow> capabilities
      | PropertySignature name questionToken member_type jsDoc \<Rightarrow>
          capabilities @ [parseCapabilitiesInterface_capability name questionToken jsDoc])"

definition parseCapabilitiesInterface ::
  "type_element list \<Rightarrow> McpCapability list \<Rightarrow> McpCapability list" where
  "parseCapabilitiesInterface members capabilities =
     foldl parseCapabilitiesInterface_member capabilities members"

section \<open>JavaScript values and thrown values\<close>

text \<open>
  An instance of \<^verbatim>\<open>Error\<close>: its name, its message, and its \<^verbatim>\<open>code\<close> property
  when it has one (the errors of Node's \<^verbatim>\<open>fs\<close> module do, for example
  \<^verbatim>\<open>ENOENT\<close>).
\<close>

record js_error =
  err_name :: string
  err_message :: string
  err_code :: "string option"

text \<open>
  \<^verbatim>\<open>AxeError\<close> is a plain object \<^verbatim>\<open>{ code, message, details, cause }\<close>, not a
  subclass of \<^verbatim>\<open>Error\<close>; its cause is an \<^verbatim>\<open>Error\<close> (\<open>Inl\<close>) or another
  \<^verbatim>\<open>AxeError\<close> (\<open>Inr\<close>).
\<close>

datatype AxeError =
  AxeError (axe_code: string) (axe_message: string)
    (axe_details: "(string \<times> string) list option")
    (axe_cause: "(js_error + AxeError) option")

text \<open>
  The values that \<^verbatim>\<open>JSON.parse\<close> can return, and \<^verbatim>\<open>undefined\<close>. A number is
  represented by an integer; the programs only test it for being zero.
\<close>

datatype js_value =
    JUndefined
  | JNull
  | JBool bool
  | JNum int
  | JStr string
  | JArr "js_value list"
  | JObj "(string \<times> js_value) list"

text \<open>What \<^verbatim>\<open>if (v)\<close> tests.\<close>

fun truthy :: "js_value \<Rightarrow> bool" where
  "truthy JUndefined = False"
| "truthy JNull = False"
| "truthy (JBool b) = b"
| "truthy (JNum n) = (n \<noteq> 0)"
| "truthy (JStr s) = (s \<noteq> [])"
| "truthy (JArr xs) = True"
| "truthy (JObj kvs) = True"

text \<open>
  A thrown value is an \<^verbatim>\<open>Error\<close> instance, an \<^verbatim>\<open>AxeError\<close> object or any
  other value.
\<close>

datatype thrown =
    ErrorInstance js_error
  | AxeErrorValue AxeError
  | PlainValue js_value

text \<open>\<^verbatim>\<open>String(n)\<close> for a natural number and for an integer: decimal digits.\<close>

definition digit_char :: "nat \<Rightarrow> char" where
  "digit_char d = ''0123456789'' ! (d mod 10)"

fun String_nat :: "nat \<Rightarrow> string" where
  "String_nat n =
     (if n < 10 then [digit_char n] else String_nat (n div 10) @ [digit_char (n mod 10)])"

declare String_nat.simps [simp del]


text \<open>\<^verbatim>\<open>s.padStart(targetLength, c)\<close> with a one-character pad string.\<close>

definition padStart :: "nat \<Rightarrow> char \<Rightarrow> string \<Rightarrow> string" where
  "padStart targetLength c s = replicate (targetLength - length s) c @ s"




section \<open>What the parser takes from its platform\<close>

text \<open>
  \<^verbatim>\<open>../types\<close>, which declares the enums \<^verbatim>\<open>ErrorPrefix\<close> and
  \<^verbatim>\<open>AxeErrorCategory\<close>, is not among the sources, and the schema path is resolved
  from \<^verbatim>\<open>__dirname\<close>; the text of \<^verbatim>\<open>ErrorPrefix.AXE\<close>, the text of
  \<^verbatim>\<open>AxeErrorCategory.PARSER\<close> and the resolved \<^verbatim>\<open>MCP_SPEC_PATH\<close> are parameters.
  So are the three library functions the parser calls: \<^verbatim>\<open>ts.createSourceFile\<close> (from
  the source text to the top-level statements of the source file), \<^verbatim>\<open>JSON.parse\<close>
  and \<^verbatim>\<open>JSON.stringify\<close>. Each of them either returns or throws an \<^verbatim>\<open>Error\<close>.
\<close>

record platform =
  ErrorPrefix_AXE :: string
  AxeErrorCategory_PARSER :: string
  MCP_SPEC_PATH :: string
  createSourceFile :: "string \<Rightarrow> js_error + statement list"
  JSON_parse :: "string \<Rightarrow> js_error + js_value"
  JSON_stringify :: "js_value \<Rightarrow> js_error + string"

section \<open>Error construction\<close>


text \<open>\<^verbatim>\<open>createParserError\<close> of the parser (lines 37-49).\<close>

definition createParserError ::
  "platform \<Rightarrow> nat \<Rightarrow> string \<Rightarrow> (string \<times> string) list option \<Rightarrow>
   (js_error + AxeError) option \<Rightarrow> AxeError" where
  "createParserError P code message details cause =
     AxeError
       (ErrorPrefix_AXE P @ ''-'' @ AxeErrorCategory_PARSER P @
        padStart 3 (CHR ''0'') (String_nat code))
       message details cause"

section \<open>Validation\<close>

text \<open>
  \<^verbatim>\<open>validateSpecification\<close> (lines 428-466). A \<^verbatim>\<open>throw\<close> is the result \<open>Inl\<close>.
  The \<^verbatim>\<open>for ... of\<close> loop over the required operations is the recursive function
  \<open>validateSpecification_loop\<close>, which returns the error of the first iteration that
  throws.
\<close>

definition requiredOperations :: "string list" where
  "requiredOperations = [''Get'', ''List'', ''Create'', ''Update'', ''Delete'']"

fun validateSpecification_loop ::
  "platform \<Rightarrow> string list \<Rightarrow> McpOperation list \<Rightarrow> AxeError option" where
  "validateSpecification_loop P [] ops = None"
| "validateSpecification_loop P (requiredOp # rest) ops =
     (if \<not> list_ex (\<lambda>op. op_name op = requiredOp) ops then
        Some (createParserError P 4
          (''MCP specification is missing required operation: '' @ requiredOp)
          (Some [(''path'', MCP_SPEC_PATH P)]) None)
      else validateSpecification_loop P rest ops)"

definition validateSpecification :: "platform \<Rightarrow> McpSpecification \<Rightarrow> AxeError + unit" where
  "validateSpecification P spec =
     (if length (spec_operations spec) = 0 then
        Inl (createParserError P 2 ''MCP specification does not define any operations''
          (Some [(''path'', MCP_SPEC_PATH P)]) None)
      else if length (spec_types spec) = 0 then
        Inl (createParserError P 3 ''MCP specification does not define any types''
          (Some [(''path'', MCP_SPEC_PATH P)]) None)
      else
        (case validateSpecification_loop P requiredOperations (spec_operations spec) of
           Some e \<Rightarrow> Inl e
         | None \<Rightarrow>
             if length (spec_capabilities spec) = 0 then
               Inl (createParserError P 5
                 ''MCP specification does not define any capabilities''
                 (Some [(''path'', MCP_SPEC_PATH P)]) None)
             else Inr ()))"

section \<open>The walk over the source file\<close>

text \<open>
  The callback of \<^verbatim>\<open>ts.forEachChild(sourceFile, ...)\<close> in \<^verbatim>\<open>parseFromSource\<close>
  (lines 185-222), as a function from the specification so far and a top-level node to
  the specification after it. The callback returns nothing, so
  \<^verbatim>\<open>forEachChild\<close> visits every top-level node in order.
\<close>

definition parseFromSource_declaration ::
  "McpSpecification \<Rightarrow> variable_declaration \<Rightarrow> McpSpecification" where
  "parseFromSource_declaration spec declaration =
     (case declaration of
        VariableDeclaration name initializer \<Rightarrow>
          (case name of
             BindingPattern \<Rightarrow> spec
           | Identifier text \<Rightarrow>
               if text = ''MCP_VERSION'' then
                 (case initializer of
                    Some (StringLiteral v) \<Rightarrow> spec\<lparr>spec_version := v\<rparr>
                  | _ \<Rightarrow> spec)
               else spec))"

definition parseFromSource_interface ::
  "McpSpecification \<Rightarrow> string \<Rightarrow> jsdoc_item list \<Rightarrow> type_element list \<Rightarrow>
   McpSpecification" where
  "parseFromSource_interface spec interfaceName jsDoc members =
     (let spec1 =
            (if interfaceName = ''McpOperations'' then
               spec\<lparr>spec_operations := parseOperationsInterface members (spec_operations spec)\<rparr>
             else spec);
          spec2 =
            (if endsWith interfaceName ''Type'' \<and> interfaceName \<noteq> ''McpType'' then
               (case parseTypeInterface interfaceName jsDoc members of
                  Some mcpType \<Rightarrow> spec1\<lparr>spec_types := spec_types spec1 @ [mcpType]\<rparr>
                | None \<Rightarrow> spec1)
             else spec1)
      in if interfaceName = ''McpCapabilities'' then
           spec2\<lparr>spec_capabilities :=
             parseCapabilitiesInterface members (spec_capabilities spec2)\<rparr>
         else spec2)"

definition parseFromSource_node :: "McpSpecification \<Rightarrow> statement \<Rightarrow> McpSpecification" where
  "parseFromSource_node spec node =
     (case node of
        VariableStatement declarations \<Rightarrow> foldl parseFromSource_declaration spec declarations
      | InterfaceDeclaration interfaceName jsDoc members \<Rightarrow>
          parseFromSource_interface spec interfaceName jsDoc members
      | OtherStatement \<Rightarrow> spec)"

definition initial_spec :: McpSpecification where
  "initial_spec =
     \<lparr>spec_version = ''1.0.0'', spec_operations = [], spec_types = [],
      spec_capabilities = []\<rparr>"

definition parseFromSource_walk :: "statement list \<Rightarrow> McpSpecification" where
  "parseFromSource_walk statements = foldl parseFromSource_node initial_spec statements"

section \<open>The specification as a JavaScript value\<close>

text \<open>
  \<^verbatim>\<open>parseSpecification\<close> returns either the object that \<^verbatim>\<open>parseFromSource\<close>
  built or whatever \<^verbatim>\<open>JSON.parse\<close> returned for the cache file, cast to
  \<^verbatim>\<open>McpSpecification\<close> without a check. Both are JavaScript values; the object
  built by the parser has its properties in the order of the object literals.
\<close>

definition js_of_operation :: "McpOperation \<Rightarrow> js_value" where
  "js_of_operation operation =
     JObj [(''name'', JStr (op_name operation)),
           (''description'', JStr (op_description operation)),
           (''inputType'', JStr (op_inputType operation)),
           (''outputType'', JStr (op_outputType operation)),
           (''required'', JBool (op_required operation))]"

definition js_of_field :: "McpField \<Rightarrow> js_value" where
  "js_of_field field =
     JObj [(''name'', JStr (field_name field)),
           (''type'', JStr (field_type field)),
           (''required'', JBool (field_required field)),
           (''repeated'', JBool (field_repeated field)),
           (''description'', JStr (field_description field))]"

definition js_of_type :: "McpType \<Rightarrow> js_value" where
  "js_of_type mcpType =
     JObj [(''name'', JStr (type_name mcpType)),
           (''description'', JStr (type_description mcpType)),
           (''fields'', JArr (map js_of_field (type_fields mcpType)))]"

definition js_of_capability :: "McpCapability \<Rightarrow> js_value" where
  "js_of_capability capability =
     JObj [(''name'', JStr (cap_name capability)),
           (''description'', JStr (cap_description capability)),
           (''required'', JBool (cap_required capability))]"

definition js_of_spec :: "McpSpecification \<Rightarrow> js_value" where
  "js_of_spec spec =
     JObj [(''version'', JStr (spec_version spec)),
           (''operations'', JArr (map js_of_operation (spec_operations spec))),
           (''types'', JArr (map js_of_type (spec_types spec))),
           (''capabilities'', JArr (map js_of_capability (spec_capabilities spec)))]"

text \<open>
  Reading a property of a value, and the property the data model states for a
  specification: every element of its \<^verbatim>\<open>types\<close> array has a non-empty
  \<^verbatim>\<open>fields\<close> array.
\<close>

fun js_get :: "js_value \<Rightarrow> string \<Rightarrow> js_value" where
  "js_get (JObj kvs) k = (case map_of kvs k of Some v \<Rightarrow> v | None \<Rightarrow> JUndefined)"
| "js_get v k = JUndefined"

fun js_nonempty_array :: "js_value \<Rightarrow> bool" where
  "js_nonempty_array (JArr xs) = (xs \<noteq> [])"
| "js_nonempty_array v = False"

fun js_elements :: "js_value \<Rightarrow> js_value list" where
  "js_elements (JArr xs) = xs"
| "js_elements v = []"

definition every_type_has_fields :: "js_value \<Rightarrow> bool" where
  "every_type_has_fields spec =
     list_all (\<lambda>t. js_nonempty_array (js_get t ''fields'')) (js_elements (js_get spec ''types''))"

section \<open>The file system and one run\<close>

text \<open>
  The parser touches two files, the schema source (\<^verbatim>\<open>MCP_SPEC_PATH\<close>) and the cache
  (\<^verbatim>\<open>MCP_SPEC_CACHE_PATH\<close>). A file has a modification time in milliseconds and a
  content; the world holds each file or its absence, and the lines written by
  \<^verbatim>\<open>console.warn\<close>.
\<close>

record fs_file =
  mtime :: int
  content :: string

record world =
  source :: "fs_file option"
  cache :: "fs_file option"
  console :: "(string \<times> thrown) list"

text \<open>
  The conditions of one run: the clock, and for each file system call the parser makes
  (each at most once in a run) an error that the call fails with whatever the state of
  the file is (permissions, I/O errors, a file removed by someone else).
\<close>

record run =
  now :: int
  fault_access :: "js_error option"
  fault_stat_cache :: "js_error option"
  fault_stat_source :: "js_error option"
  fault_readFile_cache :: "js_error option"
  fault_readFile_source :: "js_error option"
  fault_mkdir :: "js_error option"
  fault_writeFile :: "js_error option"

definition ENOENT :: js_error where
  "ENOENT =
     \<lparr>err_name = ''Error'', err_message = ''ENOENT: no such file or directory'',
      err_code = Some ''ENOENT''\<rparr>"

text \<open>
  The calls of \<^verbatim>\<open>fs/promises\<close>, awaited: \<open>Inl\<close> is a rejection with an
  \<^verbatim>\<open>Error\<close>.
\<close>

definition fs_access :: "js_error option \<Rightarrow> fs_file option \<Rightarrow> js_error + unit" where
  "fs_access fault f =
     (case fault of
        Some e \<Rightarrow> Inl e
      | None \<Rightarrow> (case f of None \<Rightarrow> Inl ENOENT | Some x \<Rightarrow> Inr ()))"

definition fs_stat :: "js_error option \<Rightarrow> fs_file option \<Rightarrow> js_error + int" where
  "fs_stat fault f =
     (case fault of
        Some e \<Rightarrow> Inl e
      | None \<Rightarrow> (case f of None \<Rightarrow> Inl ENOENT | Some x \<Rightarrow> Inr (mtime x)))"

definition fs_readFile :: "js_error option \<Rightarrow> fs_file option \<Rightarrow> js_error + string" where
  "fs_readFile fault f =
     (case fault of
        Some e \<Rightarrow> Inl e
      | None \<Rightarrow> (case f of None \<Rightarrow> Inl ENOENT | Some x \<Rightarrow> Inr (content x)))"

definition fs_mkdir :: "js_error option \<Rightarrow> js_error + unit" where
  "fs_mkdir fault = (case fault of Some e \<Rightarrow> Inl e | None \<Rightarrow> Inr ())"

text \<open>
  \<^verbatim>\<open>fs.writeFile\<close> on the cache path: on success the cache file holds the text and
  is stamped with the clock; a failed write leaves the world as it was.
\<close>

definition fs_writeFile_cache :: "run \<Rightarrow> world \<Rightarrow> string \<Rightarrow> (js_error + unit) \<times> world" where
  "fs_writeFile_cache r w text =
     (case fault_writeFile r of
        Some e \<Rightarrow> (Inl e, w)
      | None \<Rightarrow> (Inr (), w\<lparr>cache := Some \<lparr>mtime = now r, content = text\<rparr>\<rparr>))"

section \<open>The cache and the entry point\<close>

text \<open>
  \<^verbatim>\<open>loadFromCache\<close> (lines 107-135). \<open>loadFromCache_try\<close> is the body of the outer
  \<^verbatim>\<open>try\<close>; the inner \<^verbatim>\<open>try\<close> around \<^verbatim>\<open>fs.access\<close> returns \<^verbatim>\<open>null\<close> at
  once. \<^verbatim>\<open>Promise.all\<close> of the two \<^verbatim>\<open>stat\<close> calls rejects when either rejects.
  \<open>loadFromCache\<close> adds the \<^verbatim>\<open>catch\<close>.
\<close>

definition loadFromCache_try :: "platform \<Rightarrow> run \<Rightarrow> world \<Rightarrow> thrown + js_value" where
  "loadFromCache_try P r w =
     (case fs_access (fault_access r) (cache w) of
        Inl e \<Rightarrow> Inr JNull
      | Inr u \<Rightarrow>
          (case fs_stat (fault_stat_cache r) (cache w) of
             Inl e \<Rightarrow> Inl (ErrorInstance e)
           | Inr cacheStats_mtime \<Rightarrow>
               (case fs_stat (fault_stat_source r) (source w) of
                  Inl e \<Rightarrow> Inl (ErrorInstance e)
                | Inr sourceStats_mtime \<Rightarrow>
                    if cacheStats_mtime \<le> sourceStats_mtime then Inr JNull
                    else
                      (case fs_readFile (fault_readFile_cache r) (cache w) of
                         Inl e \<Rightarrow> Inl (ErrorInstance e)
                       | Inr cacheContent \<Rightarrow>
                           (case JSON_parse P cacheContent of
                              Inl e \<Rightarrow> Inl (ErrorInstance e)
                            | Inr cachedSpec \<Rightarrow> Inr cachedSpec)))))"

definition loadFromCache :: "platform \<Rightarrow> run \<Rightarrow> world \<Rightarrow> thrown + js_value" where
  "loadFromCache P r w =
     (case loadFromCache_try P r w of
        Inl error \<Rightarrow> Inr JNull
      | Inr cachedSpec \<Rightarrow> Inr cachedSpec)"

text \<open>
  \<^verbatim>\<open>cacheSpecification\<close> (lines 141-157): the body of the \<^verbatim>\<open>try\<close>, then the
  \<^verbatim>\<open>catch\<close>, which writes a warning and returns.
\<close>

definition cacheSpecification_try ::
  "platform \<Rightarrow> run \<Rightarrow> world \<Rightarrow> McpSpecification \<Rightarrow> (thrown + unit) \<times> world" where
  "cacheSpecification_try P r w spec =
     (case fs_mkdir (fault_mkdir r) of
        Inl e \<Rightarrow> (Inl (ErrorInstance e), w)
      | Inr u \<Rightarrow>
          (case JSON_stringify P (js_of_spec spec) of
             Inl e \<Rightarrow> (Inl (ErrorInstance e), w)
           | Inr text \<Rightarrow>
               (case fs_writeFile_cache r w text of
                  (Inl e, w') \<Rightarrow> (Inl (ErrorInstance e), w')
                | (Inr u', w') \<Rightarrow> (Inr (), w'))))"

definition console_warn :: "world \<Rightarrow> string \<Rightarrow> thrown \<Rightarrow> world" where
  "console_warn w label error = w\<lparr>console := console w @ [(label, error)]\<rparr>"

definition cacheSpecification ::
  "platform \<Rightarrow> run \<Rightarrow> world \<Rightarrow> McpSpecification \<Rightarrow> (thrown + unit) \<times> world" where
  "cacheSpecification P r w spec =
     (case cacheSpecification_try P r w spec of
        (Inl error, w') \<Rightarrow>
          (Inr (), console_warn w' ''Failed to cache MCP specification:'' error)
      | (Inr u, w') \<Rightarrow> (Inr (), w'))"

text \<open>\<^verbatim>\<open>parseFromSource\<close> (lines 163-228).\<close>

definition parseFromSource :: "platform \<Rightarrow> run \<Rightarrow> world \<Rightarrow> thrown + McpSpecification" where
  "parseFromSource P r w =
     (case fs_readFile (fault_readFile_source r) (source w) of
        Inl e \<Rightarrow> Inl (ErrorInstance e)
      | Inr sourceText \<Rightarrow>
          (case createSourceFile P sourceText of
             Inl e \<Rightarrow> Inl (ErrorInstance e)
           | Inr statements \<Rightarrow>
               (let spec = parseFromSource_walk statements
                in case validateSpecification P spec of
                     Inl e \<Rightarrow> Inl (AxeErrorValue e)
                   | Inr u \<Rightarrow> Inr spec)))"

text \<open>
  \<^verbatim>\<open>parseSpecification\<close> (lines 75-101): the body of the \<^verbatim>\<open>try\<close>, the
  \<^verbatim>\<open>catch\<close> block as a function of the caught value, and the two together.
\<close>

definition parseSpecification_try ::
  "platform \<Rightarrow> run \<Rightarrow> world \<Rightarrow> (thrown + js_value) \<times> world" where
  "parseSpecification_try P r w =
     (case loadFromCache P r w of
        Inl error \<Rightarrow> (Inl error, w)
      | Inr cachedSpec \<Rightarrow>
          if truthy cachedSpec then (Inr cachedSpec, w)
          else
            (case parseFromSource P r w of
               Inl error \<Rightarrow> (Inl error, w)
             | Inr parsedSpec \<Rightarrow>
                 (case cacheSpecification P r w parsedSpec of
                    (Inl error, w') \<Rightarrow> (Inl error, w')
                  | (Inr u, w') \<Rightarrow> (Inr (js_of_spec parsedSpec), w'))))"

definition parseSpecification_catch :: "platform \<Rightarrow> thrown \<Rightarrow> thrown" where
  "parseSpecification_catch P error =
     (case error of
        ErrorInstance e \<Rightarrow>
          AxeErrorValue
            (createParserError P 1 ''Failed to parse MCP specification''
               (Some [(''path'', MCP_SPEC_PATH P)]) (Some (Inl e)))
      | AxeErrorValue a \<Rightarrow> error
      | PlainValue v \<Rightarrow> error)"

definition parseSpecification ::
  "platform \<Rightarrow> run \<Rightarrow> world \<Rightarrow> (thrown + js_value) \<times> world" where
  "parseSpecification P r w =
     (case parseSpecification_try P r w of
        (Inl error, w') \<Rightarrow> (Inl (parseSpecification_catch P error), w')
      | (Inr spec, w') \<Rightarrow> (Inr spec, w'))"

section \<open>The error-handling wrapper\<close>






section \<open>A concrete schema, platform and worlds\<close>

text \<open>
  The inputs at which the theorems below are instantiated. The schema declares the five
  canonical operations, one type \<^verbatim>\<open>WidgetType\<close> with two required fields and one
  optional repeated field, and one capability.
\<close>

definition example_source_text :: string where
  \<open>example_source_text = ''export const MCP_VERSION = "2.0.0";
export interface McpOperations {
  Get: Operation<WidgetType, WidgetType>;
  List: Operation<WidgetType, WidgetType>;
  Create: Operation<WidgetType, WidgetType>;
  Update: Operation<WidgetType, WidgetType>;
  Delete: Operation<WidgetType, WidgetType>;
}
/** A widget */
export interface WidgetType {
  id: string;
  label: string;
  tags?: string[];
}
export interface McpCapabilities {
  Streaming?: boolean;
}''\<close>

definition example_operation_member :: "string \<Rightarrow> type_element" where
  "example_operation_member name =
     PropertySignature name False
       (Some (TypeReferenceNode ''Operation<WidgetType, WidgetType>'' ''Operation''
          (Some [TypeReferenceNode ''WidgetType'' ''WidgetType'' None,
                 TypeReferenceNode ''WidgetType'' ''WidgetType'' None])))
       []"

definition example_widget_members :: "type_element list" where
  "example_widget_members =
     [PropertySignature ''id'' False (Some (OtherTypeNode ''string'')) [],
      PropertySignature ''label'' False (Some (OtherTypeNode ''string'')) [],
      PropertySignature ''tags'' True
        (Some (ArrayTypeNode ''string[]'' (OtherTypeNode ''string''))) []]"

definition example_statements :: "statement list" where
  "example_statements =
     [VariableStatement
        [VariableDeclaration (Identifier ''MCP_VERSION'') (Some (StringLiteral ''2.0.0''))],
      InterfaceDeclaration ''McpOperations'' []
        (map example_operation_member [''Get'', ''List'', ''Create'', ''Update'', ''Delete'']),
      InterfaceDeclaration ''WidgetType'' [JSDoc (Some ''A widget'')] example_widget_members,
      InterfaceDeclaration ''McpCapabilities'' []
        [PropertySignature ''Streaming'' True (Some (OtherTypeNode ''boolean'')) []]]"

text \<open>The same schema without its type and without the operation \<^verbatim>\<open>Delete\<close>.\<close>

definition example_source_text_no_Delete :: string where
  \<open>example_source_text_no_Delete = ''export interface McpOperations {
  Get: Operation<WidgetType, WidgetType>;
  List: Operation<WidgetType, WidgetType>;
  Create: Operation<WidgetType, WidgetType>;
  Update: Operation<WidgetType, WidgetType>;
}
export interface McpCapabilities {
  Streaming?: boolean;
}''\<close>

definition example_statements_no_Delete :: "statement list" where
  "example_statements_no_Delete =
     [InterfaceDeclaration ''McpOperations'' []
        (map example_operation_member [''Get'', ''List'', ''Create'', ''Update'']),
      InterfaceDeclaration ''McpCapabilities'' []
        [PropertySignature ''Streaming'' True (Some (OtherTypeNode ''boolean'')) []]]"

definition example_operation :: "string \<Rightarrow> McpOperation" where
  "example_operation name =
     \<lparr>op_name = name, op_description = ''MCP '' @ name @ '' operation'',
      op_inputType = ''WidgetType'', op_outputType = ''WidgetType'', op_required = True\<rparr>"

definition example_spec :: McpSpecification where
  "example_spec =
     \<lparr>spec_version = ''2.0.0'',
      spec_operations =
        map example_operation [''Get'', ''List'', ''Create'', ''Update'', ''Delete''],
      spec_types =
        [\<lparr>type_name = ''WidgetType'', type_description = ''A widget'',
          type_fields =
            [\<lparr>field_name = ''id'', field_type = ''string'', field_required = True,
              field_repeated = False, field_description = ''id field''\<rparr>,
             \<lparr>field_name = ''label'', field_type = ''string'', field_required = True,
              field_repeated = False, field_description = ''label field''\<rparr>,
             \<lparr>field_name = ''tags'', field_type = ''string'', field_required = False,
              field_repeated = True, field_description = ''tags field''\<rparr>]\<rparr>],
      spec_capabilities =
        [\<lparr>cap_name = ''Streaming'', cap_description = ''MCP Streaming capability'',
          cap_required = False\<rparr>]\<rparr>"

text \<open>
  What \<^verbatim>\<open>JSON.stringify(spec, null, 2)\<close> writes for that specification, and a
  cache file edited by hand that declares a type without fields.
\<close>

definition example_json_text :: string where
  \<open>example_json_text = ''{
  "version": "2.0.0",
  "operations": [
    {
      "name": "Get",
      "description": "MCP Get operation",
      "inputType": "WidgetType",
      "outputType": "WidgetType",
      "required": true
    },
    {
      "name": "List",
      "description": "MCP List operation",
      "inputType": "WidgetType",
      "outputType": "WidgetType",
      "required": true
    },
    {
      "name": "Create",
      "description": "MCP Create operation",
      "inputType": "WidgetType",
      "outputType": "WidgetType",
      "required": true
    },
    {
      "name": "Update",
      "description": "MCP Update operation",
      "inputType": "WidgetType",
      "outputType": "WidgetType",
      "required": true
    },
    {
      "name": "Delete",
      "description": "MCP Delete operation",
      "inputType": "WidgetType",
      "outputType": "WidgetType",
      "required": true
    }
  ],
  "types": [
    {
      "name": "WidgetType",
      "description": "A widget",
      "fields": [
        {
          "name": "id",
          "type": "string",
          "required": true,
          "repeated": false,
          "description": "id field"
        },
        {
          "name": "label",
          "type": "string",
          "required": true,
          "repeated": false,
          "description": "label field"
        },
        {
          "name": "tags",
          "type": "string",
          "required": false,
          "repeated": true,
          "description": "tags field"
        }
      ]
    }
  ],
  "capabilities": [
    {
      "name": "Streaming",
      "description": "MCP Streaming capability",
      "required": false
    }
  ]
}''\<close>

definition edited_cache_text :: string where
  \<open>edited_cache_text = ''{"version": "2.0.0", "operations": [], "types": [{"name": "EmptyType", "description": "MCP EmptyType", "fields": []}], "capabilities": []}''\<close>

definition edited_cache_value :: js_value where
  "edited_cache_value =
     JObj [(''version'', JStr ''2.0.0''),
           (''operations'', JArr []),
           (''types'',
            JArr [JObj [(''name'', JStr ''EmptyType''),
                        (''description'', JStr ''MCP EmptyType''),
                        (''fields'', JArr [])]]),
           (''capabilities'', JArr [])]"

definition SyntaxError :: js_error where
  "SyntaxError =
     \<lparr>err_name = ''SyntaxError'', err_message = ''Unexpected token'', err_code = None\<rparr>"

definition EACCES :: js_error where
  "EACCES =
     \<lparr>err_name = ''Error'', err_message = ''EACCES: permission denied'',
      err_code = Some ''EACCES''\<rparr>"

text \<open>
  The platform of the examples: \<^verbatim>\<open>ErrorPrefix.AXE\<close> is \<^verbatim>\<open>AXE\<close> and
  \<^verbatim>\<open>AxeErrorCategory.PARSER\<close> prints as \<^verbatim>\<open>1\<close>; the three library functions are
  given on the texts and the value that occur in the examples, and throw elsewhere.
  The compiler builds a syntax tree for every text; for a text without declarations it
  has no statements.
\<close>

definition example_platform :: platform where
  "example_platform =
     \<lparr>ErrorPrefix_AXE = ''AXE'',
      AxeErrorCategory_PARSER = ''1'',
      MCP_SPEC_PATH = ''/axhandle/schemas/mcp-spec/schema.ts'',
      createSourceFile =
        (\<lambda>sourceText.
           if sourceText = example_source_text then Inr example_statements
           else if sourceText = example_source_text_no_Delete
           then Inr example_statements_no_Delete
           else Inr []),
      JSON_parse =
        (\<lambda>text.
           if text = ''null'' then Inr JNull
           else if text = edited_cache_text then Inr edited_cache_value
           else if text = example_json_text then Inr (js_of_spec example_spec)
           else Inl SyntaxError),
      JSON_stringify =
        (\<lambda>v. if v = js_of_spec example_spec then Inr example_json_text
             else Inl SyntaxError)\<rparr>"

definition no_faults :: "int \<Rightarrow> run" where
  "no_faults t =
     \<lparr>now = t, fault_access = None, fault_stat_cache = None, fault_stat_source = None,
      fault_readFile_cache = None, fault_readFile_source = None, fault_mkdir = None,
      fault_writeFile = None\<rparr>"

text \<open>
  Worlds: the schema file alone; the schema file with a cache file stamped after it;
  a source that is not a schema, with a cache stamped after it that holds the
  specification; and no file at all.
\<close>

definition schema_file :: fs_file where
  "schema_file = \<lparr>mtime = 1000, content = example_source_text\<rparr>"

definition world_without_cache :: world where
  "world_without_cache = \<lparr>source = Some schema_file, cache = None, console = []\<rparr>"

definition world_with_cache :: "string \<Rightarrow> world" where
  "world_with_cache cacheContent =
     \<lparr>source = Some schema_file,
      cache = Some \<lparr>mtime = 2000, content = cacheContent\<rparr>,
      console = []\<rparr>"

definition world_stub_source :: world where
  "world_stub_source =
     \<lparr>source = Some \<lparr>mtime = 1000, content = ''not a schema''\<rparr>,
      cache = Some \<lparr>mtime = 2000, content = example_json_text\<rparr>,
      console = []\<rparr>"




section \<open>Properties of the extraction functions\<close>





lemma extractFieldType_other:
  "extractFieldType (Some (OtherTypeNode txt)) = txt"
  by (subst extractFieldType.simps) (simp add: isRepeatedType_def)

lemma foldl_parseTypeInterface_member:
  "foldl parseTypeInterface_member acc ms =
     acc @ concat (map (\<lambda>m. case m of
                              PropertySignature n q t d \<Rightarrow> [parseTypeInterface_field n q t d]
                            | OtherTypeElement \<Rightarrow> []) ms)"
  by (induction ms arbitrary: acc)
     (auto simp: parseTypeInterface_member_def split: type_element.splits)


lemma foldl_parseCapabilitiesInterface_member:
  "foldl parseCapabilitiesInterface_member acc ms =
     acc @ concat (map (\<lambda>m. case m of
                              PropertySignature n q t d \<Rightarrow>
                                [parseCapabilitiesInterface_capability n q d]
                            | OtherTypeElement \<Rightarrow> []) ms)"
  by (induction ms arbitrary: acc)
     (auto simp: parseCapabilitiesInterface_member_def split: type_element.splits)




section \<open>Properties of validation\<close>

lemma padded_codes:
  "padStart 3 (CHR ''0'') (String_nat 1) = ''001''"
  "padStart 3 (CHR ''0'') (String_nat 2) = ''002''"
  "padStart 3 (CHR ''0'') (String_nat 3) = ''003''"
  "padStart 3 (CHR ''0'') (String_nat 4) = ''004''"
  "padStart 3 (CHR ''0'') (String_nat 5) = ''005''"
  by code_simp+

lemma find_only:
  assumes "r \<in> set xs" "Q r" "\<And>x. x \<in> set xs \<Longrightarrow> Q x \<Longrightarrow> x = r"
  shows "find Q xs = Some r"
  using assms
proof (induction xs)
  case Nil
  then show ?case by simp
next
  case (Cons a xs)
  show ?case
  proof (cases "Q a")
    case True
    then have "a = r" using Cons.prems(3)[of a] by simp
    with True show ?thesis by simp
  next
    case False
    with Cons.prems(1,2) have "r \<in> set xs" by auto
    moreover have "\<And>x. x \<in> set xs \<Longrightarrow> Q x \<Longrightarrow> x = r"
      using Cons.prems(3) by simp
    ultimately have "find Q xs = Some r"
      using Cons.IH Cons.prems(2) by blast
    with False show ?thesis by simp
  qed
qed

lemma missing_iff: "(\<not> list_ex (\<lambda>op. op_name op = r) ops) = (r \<notin> set (map op_name ops))"
  by (induction ops) auto

lemma validateSpecification_loop_find:
  "validateSpecification_loop P rs ops =
     (case find (\<lambda>r. r \<notin> set (map op_name ops)) rs of
        None \<Rightarrow> None
      | Some r \<Rightarrow>
          Some (createParserError P 4
            (''MCP specification is missing required operation: '' @ r)
            (Some [(''path'', MCP_SPEC_PATH P)]) None))"
proof (induction rs)
  case Nil
  show ?case by simp
next
  case (Cons a rs)
  show ?case
    unfolding validateSpecification_loop.simps find.simps missing_iff Cons.IH
    by (cases "a \<in> set (map op_name ops)") simp_all
qed


lemma validateSpecification_cases:
  "validateSpecification P spec =
     (if spec_operations spec = [] then
        Inl (createParserError P 2 ''MCP specification does not define any operations''
          (Some [(''path'', MCP_SPEC_PATH P)]) None)
      else if spec_types spec = [] then
        Inl (createParserError P 3 ''MCP specification does not define any types''
          (Some [(''path'', MCP_SPEC_PATH P)]) None)
      else
        (case find (\<lambda>r. r \<notin> set (map op_name (spec_operations spec)))
                [''Get'', ''List'', ''Create'', ''Update'', ''Delete''] of
           Some r \<Rightarrow>
             Inl (createParserError P 4
               (''MCP specification is missing required operation: '' @ r)
               (Some [(''path'', MCP_SPEC_PATH P)]) None)
         | None \<Rightarrow>
             if spec_capabilities spec = [] then
               Inl (createParserError P 5
                 ''MCP specification does not define any capabilities''
                 (Some [(''path'', MCP_SPEC_PATH P)]) None)
             else Inr ()))"
  unfolding validateSpecification_def validateSpecification_loop_find requiredOperations_def
  by (simp split: option.splits)

lemma parser_codes_distinct:
  "distinct [axe_code (createParserError P 2 m2 d2 c2), axe_code (createParserError P 3 m3 d3 c3),
             axe_code (createParserError P 4 m4 d4 c4), axe_code (createParserError P 5 m5 d5 c5)]"
  by (simp add: createParserError_def padded_codes)

text \<open>
  Claim C1, as amended. Validation makes four checks in a fixed order and stops at the
  first that fails: no operations (code 2), no types (code 3), a canonical operation
  missing (code 4, naming the first missing name in the order Get, List, Create,
  Update, Delete), no capabilities (code 5); the four error codes differ. When the
  specification has at least one type and exactly one canonical operation name \<open>r\<close>
  is missing, the error is the one of code 4 that names \<open>r\<close>.
\<close>

theorem validateSpecification_fail_fast:
  "validateSpecification P spec =
     (if spec_operations spec = [] then
        Inl (createParserError P 2 ''MCP specification does not define any operations''
          (Some [(''path'', MCP_SPEC_PATH P)]) None)
      else if spec_types spec = [] then
        Inl (createParserError P 3 ''MCP specification does not define any types''
          (Some [(''path'', MCP_SPEC_PATH P)]) None)
      else
        (case find (\<lambda>r. r \<notin> set (map op_name (spec_operations spec)))
                [''Get'', ''List'', ''Create'', ''Update'', ''Delete''] of
           Some r \<Rightarrow>
             Inl (createParserError P 4
               (''MCP specification is missing required operation: '' @ r)
               (Some [(''path'', MCP_SPEC_PATH P)]) None)
         | None \<Rightarrow>
             if spec_capabilities spec = [] then
               Inl (createParserError P 5
                 ''MCP specification does not define any capabilities''
                 (Some [(''path'', MCP_SPEC_PATH P)]) None)
             else Inr ())) \<and>
   distinct [axe_code (createParserError P 2 m2 d2 c2), axe_code (createParserError P 3 m3 d3 c3),
             axe_code (createParserError P 4 m4 d4 c4), axe_code (createParserError P 5 m5 d5 c5)] \<and>
   (spec_types spec \<noteq> [] \<and> r \<in> set requiredOperations \<and>
    (\<forall>r' \<in> set requiredOperations.
        (r' \<in> set (map op_name (spec_operations spec))) = (r' \<noteq> r)) \<longrightarrow>
      validateSpecification P spec =
        Inl (createParserError P 4
          (''MCP specification is missing required operation: '' @ r)
          (Some [(''path'', MCP_SPEC_PATH P)]) None))"
proof (intro conjI impI)
  show "distinct [axe_code (createParserError P 2 m2 d2 c2),
      axe_code (createParserError P 3 m3 d3 c3), axe_code (createParserError P 4 m4 d4 c4),
      axe_code (createParserError P 5 m5 d5 c5)]"
    by (rule parser_codes_distinct)
next
  assume a: "spec_types spec \<noteq> [] \<and> r \<in> set requiredOperations \<and>
    (\<forall>r' \<in> set requiredOperations.
        (r' \<in> set (map op_name (spec_operations spec))) = (r' \<noteq> r))"
  then have r: "r \<in> set requiredOperations"
    and only: "\<forall>r' \<in> set requiredOperations.
        (r' \<in> set (map op_name (spec_operations spec))) = (r' \<noteq> r)"
    and ty: "spec_types spec \<noteq> []"
    by simp_all
  have "\<exists>r' \<in> set requiredOperations. r' \<noteq> r"
    by (cases "r = ''Get''") (simp_all add: requiredOperations_def)
  with only have ops: "spec_operations spec \<noteq> []"
    by auto
  have "find (\<lambda>r. r \<notin> set (map op_name (spec_operations spec))) requiredOperations = Some r"
  proof (rule find_only)
    show "r \<in> set requiredOperations" by (rule r)
    show "r \<notin> set (map op_name (spec_operations spec))" using r only by blast
    show "\<And>x. x \<in> set requiredOperations \<Longrightarrow>
        x \<notin> set (map op_name (spec_operations spec)) \<Longrightarrow> x = r"
      using only by blast
  qed
  then show "validateSpecification P spec =
        Inl (createParserError P 4
          (''MCP specification is missing required operation: '' @ r)
          (Some [(''path'', MCP_SPEC_PATH P)]) None)"
    using ops ty unfolding validateSpecification_cases requiredOperations_def by simp
qed (rule validateSpecification_cases)

text \<open>
  A specification with at least one type, missing exactly \<^verbatim>\<open>Delete\<close>.
\<close>

theorem validateSpecification_fail_fast_witness:
  "validateSpecification example_platform
     (example_spec\<lparr>spec_operations := butlast (spec_operations example_spec)\<rparr>) =
   Inl (AxeError ''AXE-1004'' ''MCP specification is missing required operation: Delete''
          (Some [(''path'', ''/axhandle/schemas/mcp-spec/schema.ts'')]) None)"
proof -
  let ?spec = "example_spec\<lparr>spec_operations := butlast (spec_operations example_spec)\<rparr>"
  have h: "spec_types ?spec \<noteq> [] \<and> ''Delete'' \<in> set requiredOperations \<and>
    (\<forall>r' \<in> set requiredOperations.
        (r' \<in> set (map op_name (spec_operations ?spec))) = (r' \<noteq> ''Delete''))"
    by code_simp
  have "validateSpecification example_platform ?spec =
        Inl (createParserError example_platform 4
          (''MCP specification is missing required operation: '' @ ''Delete'')
          (Some [(''path'', MCP_SPEC_PATH example_platform)]) None)"
    by (rule validateSpecification_fail_fast[where P = example_platform and spec = ?spec and r = "''Delete''",
          THEN conjunct2, THEN conjunct2, THEN mp, OF h])
  then show ?thesis
    by (simp add: createParserError_def padded_codes example_platform_def)
qed

text \<open>
  The claim as stated fails for a source that is missing one canonical operation and
  declares no type: the schema below has the operations Get, List, Create and Update
  and no type, and validation fails with the error for missing types, which names no
  operation.
\<close>

theorem missing_operation_without_types_counterexample:
  "map op_name (spec_operations (parseFromSource_walk example_statements_no_Delete)) =
     [''Get'', ''List'', ''Create'', ''Update''] \<and>
   validateSpecification example_platform (parseFromSource_walk example_statements_no_Delete) =
     Inl (AxeError ''AXE-1003'' ''MCP specification does not define any types''
            (Some [(''path'', ''/axhandle/schemas/mcp-spec/schema.ts'')]) None)"
  by code_simp

section \<open>Properties of the entry point\<close>

lemma loadFromCache_returns: "\<exists>v. loadFromCache P r w = Inr v"
  by (simp add: loadFromCache_def split: sum.splits)

lemma cacheSpecification_returns:
  "cacheSpecification P r w spec = (Inr (), snd (cacheSpecification P r w spec))"
  by (simp add: cacheSpecification_def split: prod.splits sum.splits)

lemma parseSpecification_hit:
  "loadFromCache P r w = Inr c \<Longrightarrow> truthy c \<Longrightarrow> parseSpecification P r w = (Inr c, w)"
  by (simp add: parseSpecification_def parseSpecification_try_def)

lemma parseSpecification_miss:
  assumes "loadFromCache P r w = Inr c" "\<not> truthy c"
  shows "parseSpecification P r w =
     (case parseFromSource P r w of
        Inl error \<Rightarrow> (Inl (parseSpecification_catch P error), w)
      | Inr spec \<Rightarrow> (Inr (js_of_spec spec), snd (cacheSpecification P r w spec)))"
proof (cases "parseFromSource P r w")
  case (Inl error)
  with assms show ?thesis
    by (simp add: parseSpecification_def parseSpecification_try_def)
next
  case (Inr spec)
  have "cacheSpecification P r w spec = (Inr (), snd (cacheSpecification P r w spec))"
    by (rule cacheSpecification_returns)
  then obtain w' where "cacheSpecification P r w spec = (Inr (), w')"
    by (rule that)
  with assms Inr show ?thesis
    by (simp add: parseSpecification_def parseSpecification_try_def)
qed

lemma loadFromCache_cases:
  "loadFromCache P r w =
     Inr (case fs_access (fault_access r) (cache w) of
            Inl e \<Rightarrow> JNull
          | Inr u \<Rightarrow>
              (case fs_stat (fault_stat_cache r) (cache w) of
                 Inl e \<Rightarrow> JNull
               | Inr cm \<Rightarrow>
                   (case fs_stat (fault_stat_source r) (source w) of
                      Inl e \<Rightarrow> JNull
                    | Inr sm \<Rightarrow>
                        if cm \<le> sm then JNull
                        else
                          (case fs_readFile (fault_readFile_cache r) (cache w) of
                             Inl e \<Rightarrow> JNull
                           | Inr text \<Rightarrow>
                               (case JSON_parse P text of
                                  Inl e \<Rightarrow> JNull
                                | Inr v \<Rightarrow> v)))))"
  by (simp add: loadFromCache_def loadFromCache_try_def split: sum.splits)



lemma example_json_text_neq:
  "example_json_text \<noteq> ''null''" "example_json_text \<noteq> edited_cache_text"
  "edited_cache_text \<noteq> ''null''"
  by (simp_all add: example_json_text_def edited_cache_text_def)

lemma parseTypeInterface_fields:
  "parseTypeInterface typeName jsDoc members = Some t \<Longrightarrow> type_fields t \<noteq> []"
  by (auto simp: parseTypeInterface_def Let_def split: if_splits)

lemma parseFromSource_declaration_types:
  "spec_types (parseFromSource_declaration spec d) = spec_types spec"
  by (simp add: parseFromSource_declaration_def
      split: variable_declaration.splits binding_name.splits option.splits expression.splits)

lemma foldl_parseFromSource_declaration_types:
  "spec_types (foldl parseFromSource_declaration spec ds) = spec_types spec"
  by (induction ds arbitrary: spec) (simp_all add: parseFromSource_declaration_types)

lemma parseFromSource_interface_types:
  "spec_types (parseFromSource_interface spec interfaceName jsDoc members) =
     (if endsWith interfaceName ''Type'' \<and> interfaceName \<noteq> ''McpType'' then
        (case parseTypeInterface interfaceName jsDoc members of
           Some t \<Rightarrow> spec_types spec @ [t]
         | None \<Rightarrow> spec_types spec)
      else spec_types spec)"
  by (simp add: parseFromSource_interface_def Let_def split: option.splits)

lemma parseFromSource_node_fields:
  assumes "list_all (\<lambda>t. type_fields t \<noteq> []) (spec_types spec)"
  shows "list_all (\<lambda>t. type_fields t \<noteq> []) (spec_types (parseFromSource_node spec node))"
proof (cases node)
  case (VariableStatement ds)
  with assms show ?thesis
    by (simp add: parseFromSource_node_def foldl_parseFromSource_declaration_types)
next
  case (InterfaceDeclaration interfaceName jsDoc members)
  with assms show ?thesis
    by (auto simp: parseFromSource_node_def parseFromSource_interface_types
        dest: parseTypeInterface_fields split: option.splits)
next
  case OtherStatement
  with assms show ?thesis by (simp add: parseFromSource_node_def)
qed

lemma foldl_parseFromSource_node_fields:
  "list_all (\<lambda>t. type_fields t \<noteq> []) (spec_types spec) \<Longrightarrow>
   list_all (\<lambda>t. type_fields t \<noteq> []) (spec_types (foldl parseFromSource_node spec nodes))"
  by (induction nodes arbitrary: spec) (simp_all add: parseFromSource_node_fields)

lemma parseFromSource_walk_fields:
  "list_all (\<lambda>t. type_fields t \<noteq> []) (spec_types (parseFromSource_walk statements))"
  unfolding parseFromSource_walk_def
  by (rule foldl_parseFromSource_node_fields) (simp add: initial_spec_def)

lemma parseFromSource_fields:
  "parseFromSource P r w = Inr spec \<Longrightarrow> list_all (\<lambda>t. type_fields t \<noteq> []) (spec_types spec)"
  using parseFromSource_walk_fields
  by (auto simp: parseFromSource_def Let_def split: sum.splits)

lemma every_type_has_fields_js_of_spec:
  "every_type_has_fields (js_of_spec spec) = list_all (\<lambda>t. type_fields t \<noteq> []) (spec_types spec)"
  by (simp add: every_type_has_fields_def js_of_spec_def list_all_iff js_of_type_def)

lemma loadFromCache_cong:
  assumes "fault_access r2 = fault_access r1" "fault_stat_cache r2 = fault_stat_cache r1"
    "fault_stat_source r2 = fault_stat_source r1"
    "fault_readFile_cache r2 = fault_readFile_cache r1"
    "cache w2 = cache w1" "source w2 = source w1"
  shows "loadFromCache P r2 w2 = loadFromCache P r1 w1"
  by (simp only: loadFromCache_cases assms)

lemma parseFromSource_cong:
  assumes "fault_readFile_source r2 = fault_readFile_source r1" "source w2 = source w1"
  shows "parseFromSource P r2 w2 = parseFromSource P r1 w1"
  by (simp only: parseFromSource_def assms)

lemma cacheSpecification_world:
  "(cache (snd (cacheSpecification P r w spec)) = cache w \<or>
    (\<exists>t. JSON_stringify P (js_of_spec spec) = Inr t \<and>
       cache (snd (cacheSpecification P r w spec)) = Some \<lparr>mtime = now r, content = t\<rparr>)) \<and>
   source (snd (cacheSpecification P r w spec)) = source w"
  by (simp add: cacheSpecification_def cacheSpecification_try_def fs_mkdir_def
      fs_writeFile_cache_def console_warn_def split: option.splits sum.splits)

lemma loadFromCache_written:
  assumes "cache w = Some \<lparr>mtime = m, content = t\<rparr>" "JSON_parse P t = Inr v"
  shows "loadFromCache P r w = Inr JNull \<or> loadFromCache P r w = Inr v"
  using assms
  by (simp add: loadFromCache_cases fs_readFile_def split: sum.splits option.splits)


text \<open>
  Claim C2, as amended. The calls of \<open>fs.stat\<close> report the modification times of the
  two files. A value other than \<^verbatim>\<open>null\<close> comes out of the cache only when the cache
  file is stamped strictly after the source file. When the cache file is absent, or is
  stamped at or before the source file, the cache is bypassed: the result is that of
  parsing the source (with the \<^verbatim>\<open>catch\<close> block applied to a thrown value), and the
  parsed specification is handed to \<open>cacheSpecification\<close>. When the cache file is
  stamped strictly after the source file and is read and deserialized without a failure
  to a truthy value, \<open>parseSpecification\<close> returns that value and leaves the world as
  it is; neither the content of the source file nor the outcome of reading or parsing it
  occurs in the hypotheses.
\<close>

theorem cache_used_when_newer:
  "((\<exists>v. loadFromCache P r w = Inr v \<and> v \<noteq> JNull) \<longrightarrow>
      (\<exists>c s. cache w = Some c \<and> source w = Some s \<and> mtime s < mtime c)) \<and>
   (cache w = None \<or>
    (\<exists>c s. cache w = Some c \<and> source w = Some s \<and> mtime c \<le> mtime s) \<longrightarrow>
      loadFromCache P r w = Inr JNull \<and>
      parseSpecification P r w =
        (case parseFromSource P r w of
           Inl error \<Rightarrow> (Inl (parseSpecification_catch P error), w)
         | Inr spec \<Rightarrow> (Inr (js_of_spec spec), snd (cacheSpecification P r w spec)))) \<and>
   (cache w = Some c \<and> source w = Some s \<and> mtime s < mtime c \<and>
    fault_access r = None \<and> fault_stat_cache r = None \<and> fault_stat_source r = None \<and>
    fault_readFile_cache r = None \<and> JSON_parse P (content c) = Inr v \<and> truthy v \<longrightarrow>
      parseSpecification P r w = (Inr v, w))"
proof (intro conjI impI)
  assume "\<exists>v. loadFromCache P r w = Inr v \<and> v \<noteq> JNull"
  then obtain v where v: "loadFromCache P r w = Inr v" "v \<noteq> JNull"
    by (elim exE conjE)
  show "\<exists>c s. cache w = Some c \<and> source w = Some s \<and> mtime s < mtime c"
  proof (cases "cache w")
    case None
    with v show ?thesis
      by (simp add: loadFromCache_cases fs_access_def split: option.splits)
  next
    case c: (Some c)
    show ?thesis
    proof (cases "source w")
      case None
      with v c show ?thesis
        by (simp add: loadFromCache_cases fs_access_def fs_stat_def
            split: option.splits sum.splits)
    next
      case s: (Some s)
      have "mtime s < mtime c"
      proof (rule ccontr)
        assume "\<not> mtime s < mtime c"
        with v c s show False
          by (simp add: loadFromCache_cases fs_access_def fs_stat_def
              split: option.splits sum.splits)
      qed
      with c s show ?thesis by simp
    qed
  qed
next
  assume a: "cache w = None \<or>
    (\<exists>c s. cache w = Some c \<and> source w = Some s \<and> mtime c \<le> mtime s)"
  then show miss: "loadFromCache P r w = Inr JNull"
    by (auto simp: loadFromCache_cases fs_access_def fs_stat_def
        split: option.splits sum.splits)
  show "parseSpecification P r w =
        (case parseFromSource P r w of
           Inl error \<Rightarrow> (Inl (parseSpecification_catch P error), w)
         | Inr spec \<Rightarrow> (Inr (js_of_spec spec), snd (cacheSpecification P r w spec)))"
    by (rule parseSpecification_miss[OF miss]) simp
next
  assume "cache w = Some c \<and> source w = Some s \<and> mtime s < mtime c \<and>
    fault_access r = None \<and> fault_stat_cache r = None \<and> fault_stat_source r = None \<and>
    fault_readFile_cache r = None \<and> JSON_parse P (content c) = Inr v \<and> truthy v"
  then have "loadFromCache P r w = Inr v" and "truthy v"
    by (simp_all add: loadFromCache_cases fs_access_def fs_stat_def fs_readFile_def)
  then show "parseSpecification P r w = (Inr v, w)"
    by (rule parseSpecification_hit)
qed

text \<open>
  A source that is not a schema (parsing it would fail validation) with a newer cache
  that holds the specification: the cached value is returned. A cache file stamped
  after the source yields a value other than \<^verbatim>\<open>null\<close>; and without a cache file
  the source is parsed and the cache is written.
\<close>

theorem cache_used_when_newer_witness:
  "parseSpecification example_platform (no_faults 3000) world_stub_source =
     (Inr (js_of_spec example_spec), world_stub_source) \<and>
   parseFromSource example_platform (no_faults 3000) world_stub_source =
     Inl (AxeErrorValue (AxeError ''AXE-1002''
       ''MCP specification does not define any operations''
       (Some [(''path'', ''/axhandle/schemas/mcp-spec/schema.ts'')]) None)) \<and>
   loadFromCache example_platform (no_faults 3000) (world_with_cache example_json_text) =
     Inr (js_of_spec example_spec) \<and>
   parseSpecification example_platform (no_faults 3000) world_without_cache =
     (Inr (js_of_spec example_spec),
      world_without_cache\<lparr>cache := Some \<lparr>mtime = 3000, content = example_json_text\<rparr>\<rparr>)"
proof (intro conjI)
  let ?c = "\<lparr>mtime = 2000, content = example_json_text\<rparr>"
  let ?s = "\<lparr>mtime = 1000, content = ''not a schema''\<rparr>"
  have h: "cache world_stub_source = Some ?c \<and> source world_stub_source = Some ?s \<and>
    mtime ?s < mtime ?c \<and>
    fault_access (no_faults 3000) = None \<and> fault_stat_cache (no_faults 3000) = None \<and>
    fault_stat_source (no_faults 3000) = None \<and>
    fault_readFile_cache (no_faults 3000) = None \<and>
    JSON_parse example_platform (content ?c) = Inr (js_of_spec example_spec) \<and>
    truthy (js_of_spec example_spec)"
    using example_json_text_neq
    by (simp add: world_stub_source_def no_faults_def example_platform_def js_of_spec_def)
  show "parseSpecification example_platform (no_faults 3000) world_stub_source =
     (Inr (js_of_spec example_spec), world_stub_source)"
    by (rule cache_used_when_newer[where P = example_platform and r = "no_faults 3000"
          and w = world_stub_source and c = ?c and s = ?s and v = "js_of_spec example_spec",
          THEN conjunct2, THEN conjunct2, THEN mp, OF h])
next
  show "parseFromSource example_platform (no_faults 3000) world_stub_source =
     Inl (AxeErrorValue (AxeError ''AXE-1002''
       ''MCP specification does not define any operations''
       (Some [(''path'', ''/axhandle/schemas/mcp-spec/schema.ts'')]) None))"
    by code_simp
next
  let ?w = "world_with_cache example_json_text"
  have "loadFromCache example_platform (no_faults 3000) ?w = Inr (js_of_spec example_spec)"
    using example_json_text_neq
    by (simp add: loadFromCache_cases fs_access_def fs_stat_def fs_readFile_def
        world_with_cache_def schema_file_def no_faults_def example_platform_def)
  moreover have "js_of_spec example_spec \<noteq> JNull"
    by (simp add: js_of_spec_def)
  ultimately have "\<exists>v. loadFromCache example_platform (no_faults 3000) ?w = Inr v \<and> v \<noteq> JNull"
    by (intro exI conjI)
  from cache_used_when_newer[where P = example_platform and r = "no_faults 3000" and w = ?w,
      THEN conjunct1, THEN mp, OF this]
  have "\<exists>c s. cache ?w = Some c \<and> source ?w = Some s \<and> mtime s < mtime c" .
  then show "loadFromCache example_platform (no_faults 3000) ?w = Inr (js_of_spec example_spec)"
    using \<open>loadFromCache example_platform (no_faults 3000) ?w = Inr (js_of_spec example_spec)\<close>
    by simp
next
  have h: "cache world_without_cache = None \<or>
    (\<exists>c s. cache world_without_cache = Some c \<and> source world_without_cache = Some s \<and>
       mtime c \<le> mtime s)"
    by (simp add: world_without_cache_def)
  have p: "parseFromSource example_platform (no_faults 3000) world_without_cache =
      Inr example_spec"
    by code_simp
  have s: "cacheSpecification example_platform (no_faults 3000) world_without_cache
      example_spec =
      (Inr (), world_without_cache\<lparr>cache :=
         Some \<lparr>mtime = 3000, content = example_json_text\<rparr>\<rparr>)"
    by (simp add: cacheSpecification_def cacheSpecification_try_def fs_mkdir_def
        fs_writeFile_cache_def no_faults_def example_platform_def)
  from cache_used_when_newer[where P = example_platform and r = "no_faults 3000" and w = world_without_cache,
      THEN conjunct2, THEN conjunct1, THEN mp, OF h, THEN conjunct2]
  show "parseSpecification example_platform (no_faults 3000) world_without_cache =
     (Inr (js_of_spec example_spec),
      world_without_cache\<lparr>cache := Some \<lparr>mtime = 3000, content = example_json_text\<rparr>\<rparr>)"
    by (simp add: p s)
qed

text \<open>
  The claim as stated fails for a cache file that is stamped after the source file and
  holds the text \<^verbatim>\<open>null\<close>: \<^verbatim>\<open>JSON.parse\<close> deserializes it to \<^verbatim>\<open>null\<close>, which
  \<^verbatim>\<open>if (cachedSpec)\<close> takes for a miss, so the source is parsed and the cache file
  is written anew.
\<close>

theorem null_cache_counterexample:
  "JSON_parse example_platform ''null'' = Inr JNull \<and>
   parseSpecification example_platform (no_faults 3000) (world_with_cache ''null'') =
     (Inr (js_of_spec example_spec),
      (world_with_cache ''null'')
        \<lparr>cache := Some \<lparr>mtime = 3000, content = example_json_text\<rparr>\<rparr>)"
  by code_simp



text \<open>
  Claim C7, as amended. Every type of a specification that \<open>parseFromSource\<close>
  returns has a non-empty list of fields; so has every type of the value that
  \<open>parseSpecification\<close> returns, provided that the value loaded from the cache, when
  it is used, has the property (a value from the cache is returned as it was
  deserialized). An interface without any property signature gives no type and leaves
  the list of types as it was.
\<close>

theorem parsed_types_have_fields:
  "(parseFromSource P r w = Inr spec \<longrightarrow>
      list_all (\<lambda>t. type_fields t \<noteq> []) (spec_types spec) \<and>
      every_type_has_fields (js_of_spec spec)) \<and>
   (loadFromCache P r w = Inr c \<and> (truthy c \<longrightarrow> every_type_has_fields c) \<and>
    fst (parseSpecification P r w) = Inr v \<longrightarrow> every_type_has_fields v) \<and>
   (list_all (\<lambda>m. m = OtherTypeElement) members \<longrightarrow>
      parseTypeInterface typeName jsDoc members = None \<and>
      spec_types (parseFromSource_interface spec0 typeName jsDoc members) = spec_types spec0)"
proof (intro conjI impI)
  assume "parseFromSource P r w = Inr spec"
  then show "list_all (\<lambda>t. type_fields t \<noteq> []) (spec_types spec)"
    by (rule parseFromSource_fields)
  then show "every_type_has_fields (js_of_spec spec)"
    by (simp add: every_type_has_fields_js_of_spec)
next
  assume "loadFromCache P r w = Inr c \<and> (truthy c \<longrightarrow> every_type_has_fields c) \<and>
    fst (parseSpecification P r w) = Inr v"
  then have c: "loadFromCache P r w = Inr c" and ok: "truthy c \<Longrightarrow> every_type_has_fields c"
    and v: "fst (parseSpecification P r w) = Inr v"
    by simp_all
  show "every_type_has_fields v"
  proof (cases "truthy c")
    case True
    from parseSpecification_hit[OF c True] v have "v = c" by simp
    with ok[OF True] show ?thesis by simp
  next
    case False
    from v parseSpecification_miss[OF c False] obtain spec
      where "parseFromSource P r w = Inr spec" "v = js_of_spec spec"
      by (cases "parseFromSource P r w") simp_all
    then show ?thesis
      by (simp add: every_type_has_fields_js_of_spec parseFromSource_fields)
  qed
next
  assume "list_all (\<lambda>m. m = OtherTypeElement) members"
  then have "concat (map (\<lambda>m. case m of
        PropertySignature n q t d \<Rightarrow> [parseTypeInterface_field n q t d]
      | OtherTypeElement \<Rightarrow> []) members) = []"
    by (induction members) simp_all
  then show none: "parseTypeInterface typeName jsDoc members = None"
    by (simp add: parseTypeInterface_def foldl_parseTypeInterface_member)
  show "spec_types (parseFromSource_interface spec0 typeName jsDoc members) = spec_types spec0"
    by (simp add: parseFromSource_interface_types none)
qed

text \<open>
  The schema of the examples, parsed and served from the cache, and an interface
  \<^verbatim>\<open>EmptyType\<close> whose only member is not a property signature.
\<close>

theorem parsed_types_have_fields_witness:
  "list_all (\<lambda>t. type_fields t \<noteq> []) (spec_types example_spec) \<and>
   every_type_has_fields (js_of_spec example_spec) \<and>
   fst (parseSpecification example_platform (no_faults 3000) world_stub_source) =
     Inr (js_of_spec example_spec) \<and>
   parseTypeInterface ''EmptyType'' [] [OtherTypeElement] = None \<and>
   spec_types (parseFromSource_interface example_spec ''EmptyType'' [] [OtherTypeElement]) =
     spec_types example_spec"
proof -
  let ?r = "no_faults 3000"
  let ?v = "js_of_spec example_spec"
  have p: "parseFromSource example_platform ?r world_without_cache = Inr example_spec"
    by code_simp
  have res: "fst (parseSpecification example_platform ?r world_stub_source) = Inr ?v"
    by code_simp
  have load: "loadFromCache example_platform ?r world_stub_source = Inr ?v"
    using example_json_text_neq
    by (simp add: loadFromCache_cases fs_access_def fs_stat_def fs_readFile_def
        world_stub_source_def no_faults_def example_platform_def)
  have e: "list_all (\<lambda>m. m = OtherTypeElement) [OtherTypeElement]"
    by simp
  note inst1 = parsed_types_have_fields[where P = example_platform and r = ?r and w = world_without_cache
      and spec = example_spec, THEN conjunct1, THEN mp, OF p]
  from inst1 have q: "loadFromCache example_platform ?r world_stub_source = Inr ?v \<and>
    (truthy ?v \<longrightarrow> every_type_has_fields ?v) \<and>
    fst (parseSpecification example_platform ?r world_stub_source) = Inr ?v"
    using load res by simp
  note inst2 = parsed_types_have_fields[where P = example_platform and r = ?r and w = world_stub_source
      and c = ?v and v = ?v, THEN conjunct2, THEN conjunct1, THEN mp, OF q]
  note inst3 = parsed_types_have_fields[where members = "[OtherTypeElement]" and typeName = "''EmptyType''"
      and jsDoc = "[]" and ?spec0.0 = example_spec,
      THEN conjunct2, THEN conjunct2, THEN mp, OF e]
  from inst1 inst2 inst3 res show ?thesis by simp
qed

text \<open>
  The claim as stated fails for a cache file, stamped after the source file, that was
  edited to declare a type without fields: \<open>parseSpecification\<close> returns the
  deserialized value, whose only type has an empty \<^verbatim>\<open>fields\<close> array.
\<close>

theorem edited_cache_counterexample:
  "parseSpecification example_platform (no_faults 3000) (world_with_cache edited_cache_text) =
     (Inr edited_cache_value, world_with_cache edited_cache_text) \<and>
   \<not> every_type_has_fields edited_cache_value \<and>
   js_get edited_cache_value ''types'' =
     JArr [JObj [(''name'', JStr ''EmptyType''), (''description'', JStr ''MCP EmptyType''),
                 (''fields'', JArr [])]]"
  by code_simp

text \<open>
  Claim C8. \<open>loadFromCache\<close> always returns. When the existence check, either
  \<^verbatim>\<open>stat\<close>, the read of the cache file or \<^verbatim>\<open>JSON.parse\<close> of its content fails,
  it returns \<^verbatim>\<open>null\<close> and \<open>parseSpecification\<close> does what it does without a
  cache: it parses the source. \<open>cacheSpecification\<close> always returns; when creating
  the directory, \<^verbatim>\<open>JSON.stringify\<close> or the write fails with \<open>e\<close>, the only change
  to the world is one warning on the console that carries \<open>e\<close>. Whenever the cache
  is missed and the source parses, \<open>parseSpecification\<close> returns the parsed
  specification, whatever happens while saving it.
\<close>

theorem cache_failures_never_abort:
  "(\<exists>v. loadFromCache P r w = Inr v) \<and>
   ((\<exists>e. fs_access (fault_access r) (cache w) = Inl e) \<or>
    (\<exists>e. fs_stat (fault_stat_cache r) (cache w) = Inl e) \<or>
    (\<exists>e. fs_stat (fault_stat_source r) (source w) = Inl e) \<or>
    (\<exists>e. fs_readFile (fault_readFile_cache r) (cache w) = Inl e) \<or>
    (\<exists>cacheContent e. fs_readFile (fault_readFile_cache r) (cache w) = Inr cacheContent \<and>
       JSON_parse P cacheContent = Inl e) \<longrightarrow>
      loadFromCache P r w = Inr JNull \<and>
      parseSpecification P r w =
        (case parseFromSource P r w of
           Inl error \<Rightarrow> (Inl (parseSpecification_catch P error), w)
         | Inr spec \<Rightarrow> (Inr (js_of_spec spec), snd (cacheSpecification P r w spec)))) \<and>
   (\<exists>w'. cacheSpecification P r w parsedSpec = (Inr (), w')) \<and>
   (fault_mkdir r = Some e \<or>
    fault_mkdir r = None \<and> JSON_stringify P (js_of_spec parsedSpec) = Inl e \<or>
    fault_mkdir r = None \<and> (\<exists>t. JSON_stringify P (js_of_spec parsedSpec) = Inr t) \<and>
      fault_writeFile r = Some e \<longrightarrow>
      cacheSpecification P r w parsedSpec =
        (Inr (), w\<lparr>console := console w @
           [(''Failed to cache MCP specification:'', ErrorInstance e)]\<rparr>)) \<and>
   ((\<exists>c. loadFromCache P r w = Inr c \<and> \<not> truthy c) \<and>
    parseFromSource P r w = Inr parsedSpec \<longrightarrow>
      parseSpecification P r w =
        (Inr (js_of_spec parsedSpec), snd (cacheSpecification P r w parsedSpec)))"
proof (intro conjI impI)
  show "\<exists>v. loadFromCache P r w = Inr v"
    by (rule loadFromCache_returns)
next
  assume a: "(\<exists>e. fs_access (fault_access r) (cache w) = Inl e) \<or>
    (\<exists>e. fs_stat (fault_stat_cache r) (cache w) = Inl e) \<or>
    (\<exists>e. fs_stat (fault_stat_source r) (source w) = Inl e) \<or>
    (\<exists>e. fs_readFile (fault_readFile_cache r) (cache w) = Inl e) \<or>
    (\<exists>cacheContent e. fs_readFile (fault_readFile_cache r) (cache w) = Inr cacheContent \<and>
       JSON_parse P cacheContent = Inl e)"
  then show miss: "loadFromCache P r w = Inr JNull"
    by (elim disjE exE conjE) (simp_all add: loadFromCache_cases split: sum.splits)
  show "parseSpecification P r w =
        (case parseFromSource P r w of
           Inl error \<Rightarrow> (Inl (parseSpecification_catch P error), w)
         | Inr spec \<Rightarrow> (Inr (js_of_spec spec), snd (cacheSpecification P r w spec)))"
    by (rule parseSpecification_miss[OF miss]) simp
next
  have "cacheSpecification P r w parsedSpec =
      (Inr (), snd (cacheSpecification P r w parsedSpec))"
    by (rule cacheSpecification_returns)
  then show "\<exists>w'. cacheSpecification P r w parsedSpec = (Inr (), w')"
    by (intro exI)
next
  assume "fault_mkdir r = Some e \<or>
    fault_mkdir r = None \<and> JSON_stringify P (js_of_spec parsedSpec) = Inl e \<or>
    fault_mkdir r = None \<and> (\<exists>t. JSON_stringify P (js_of_spec parsedSpec) = Inr t) \<and>
      fault_writeFile r = Some e"
  then show "cacheSpecification P r w parsedSpec =
        (Inr (), w\<lparr>console := console w @
           [(''Failed to cache MCP specification:'', ErrorInstance e)]\<rparr>)"
    by (elim disjE exE conjE)
      (simp_all add: cacheSpecification_def cacheSpecification_try_def fs_mkdir_def
        fs_writeFile_cache_def console_warn_def)
next
  assume "(\<exists>c. loadFromCache P r w = Inr c \<and> \<not> truthy c) \<and>
    parseFromSource P r w = Inr parsedSpec"
  then obtain c where c: "loadFromCache P r w = Inr c" "\<not> truthy c"
    and p: "parseFromSource P r w = Inr parsedSpec"
    by (elim conjE exE)
  from parseSpecification_miss[OF c] p
  show "parseSpecification P r w =
        (Inr (js_of_spec parsedSpec), snd (cacheSpecification P r w parsedSpec))"
    by simp
qed

text \<open>
  A truncated cache file stamped after the source, and a write that is refused: the
  parsed specification is returned and the warning is the only trace.
\<close>

theorem cache_failures_never_abort_witness:
  "parseSpecification example_platform ((no_faults 3000)\<lparr>fault_writeFile := Some EACCES\<rparr>)
     (world_with_cache ''{'') =
   (Inr (js_of_spec example_spec),
    (world_with_cache ''{'')\<lparr>console :=
       [(''Failed to cache MCP specification:'', ErrorInstance EACCES)]\<rparr>)"
proof -
  let ?r = "(no_faults 3000)\<lparr>fault_writeFile := Some EACCES\<rparr>"
  let ?w = "world_with_cache ''{''"
  have neq: "''{'' \<noteq> edited_cache_text" "''{'' \<noteq> example_json_text"
    by (simp_all add: edited_cache_text_def example_json_text_def)
  have load: "(\<exists>e. fs_access (fault_access ?r) (cache ?w) = Inl e) \<or>
    (\<exists>e. fs_stat (fault_stat_cache ?r) (cache ?w) = Inl e) \<or>
    (\<exists>e. fs_stat (fault_stat_source ?r) (source ?w) = Inl e) \<or>
    (\<exists>e. fs_readFile (fault_readFile_cache ?r) (cache ?w) = Inl e) \<or>
    (\<exists>cacheContent e. fs_readFile (fault_readFile_cache ?r) (cache ?w) = Inr cacheContent \<and>
       JSON_parse example_platform cacheContent = Inl e)"
  proof -
    have "fs_readFile (fault_readFile_cache ?r) (cache ?w) = Inr ''{'' \<and>
       JSON_parse example_platform ''{'' = Inl SyntaxError"
      using neq
      by (simp add: fs_readFile_def no_faults_def world_with_cache_def example_platform_def)
    then show ?thesis by (intro disjI2 exI)
  qed
  have save: "fault_mkdir ?r = Some EACCES \<or>
    fault_mkdir ?r = None \<and> JSON_stringify example_platform (js_of_spec example_spec) = Inl EACCES \<or>
    fault_mkdir ?r = None \<and>
      (\<exists>t. JSON_stringify example_platform (js_of_spec example_spec) = Inr t) \<and>
      fault_writeFile ?r = Some EACCES"
  proof -
    have "fault_mkdir ?r = None \<and>
      JSON_stringify example_platform (js_of_spec example_spec) = Inr example_json_text \<and>
      fault_writeFile ?r = Some EACCES"
      by (simp add: no_faults_def example_platform_def)
    then have "fault_mkdir ?r = None \<and>
      (\<exists>t. JSON_stringify example_platform (js_of_spec example_spec) = Inr t) \<and>
      fault_writeFile ?r = Some EACCES"
      by (intro conjI exI) simp_all
    then show ?thesis by (intro disjI2)
  qed
  have p: "parseFromSource example_platform ?r ?w = Inr example_spec"
    by code_simp
  note inst = cache_failures_never_abort[where P = example_platform and r = ?r and w = ?w
      and parsedSpec = example_spec and e = EACCES]
  from inst[THEN conjunct2, THEN conjunct1, THEN mp, OF load]
  have "parseSpecification example_platform ?r ?w =
      (Inr (js_of_spec example_spec), snd (cacheSpecification example_platform ?r ?w example_spec))"
    by (simp add: p)
  moreover from inst[THEN conjunct2, THEN conjunct2, THEN conjunct2, THEN conjunct1, THEN mp,
      OF save]
  have "cacheSpecification example_platform ?r ?w example_spec =
      (Inr (), ?w\<lparr>console := console ?w @
           [(''Failed to cache MCP specification:'', ErrorInstance EACCES)]\<rparr>)" .
  ultimately show ?thesis
    by (simp add: world_with_cache_def)
qed

text \<open>
  Claim C9. Let a first call return \<open>v1\<close> and leave the world \<open>w1\<close>, and let a
  second call run in \<open>w1\<close> under the same conditions for reading (the same outcome of
  each call that reads the cache or the source), with \<^verbatim>\<open>JSON.parse\<close> inverting
  \<^verbatim>\<open>JSON.stringify\<close> on \<open>v1\<close>. Then the second call returns \<open>v1\<close>, whether
  it is served from the cache or parses the source again; the first call has not
  changed the source.
\<close>

theorem second_call_returns_same_value:
  "parseSpecification P r1 w0 = (Inr v1, w1) \<and>
   fault_access r2 = fault_access r1 \<and> fault_stat_cache r2 = fault_stat_cache r1 \<and>
   fault_stat_source r2 = fault_stat_source r1 \<and>
   fault_readFile_cache r2 = fault_readFile_cache r1 \<and>
   fault_readFile_source r2 = fault_readFile_source r1 \<and>
   (\<forall>t. JSON_stringify P v1 = Inr t \<longrightarrow> JSON_parse P t = Inr v1) \<longrightarrow>
     fst (parseSpecification P r2 w1) = Inr v1 \<and> source w1 = source w0"
proof (intro impI)
  assume a: "parseSpecification P r1 w0 = (Inr v1, w1) \<and>
   fault_access r2 = fault_access r1 \<and> fault_stat_cache r2 = fault_stat_cache r1 \<and>
   fault_stat_source r2 = fault_stat_source r1 \<and>
   fault_readFile_cache r2 = fault_readFile_cache r1 \<and>
   fault_readFile_source r2 = fault_readFile_source r1 \<and>
   (\<forall>t. JSON_stringify P v1 = Inr t \<longrightarrow> JSON_parse P t = Inr v1)"
  then have first: "parseSpecification P r1 w0 = (Inr v1, w1)"
    and f: "fault_access r2 = fault_access r1" "fault_stat_cache r2 = fault_stat_cache r1"
      "fault_stat_source r2 = fault_stat_source r1"
      "fault_readFile_cache r2 = fault_readFile_cache r1"
    and fs: "fault_readFile_source r2 = fault_readFile_source r1"
    and rt: "\<And>t. JSON_stringify P v1 = Inr t \<Longrightarrow> JSON_parse P t = Inr v1"
    by simp_all
  obtain c where c: "loadFromCache P r1 w0 = Inr c"
    using loadFromCache_returns[of P r1 w0] by (elim exE)
  show "fst (parseSpecification P r2 w1) = Inr v1 \<and> source w1 = source w0"
  proof (cases "truthy c")
    case True
    from parseSpecification_hit[OF c True] first have eq: "v1 = c" "w1 = w0"
      by simp_all
    have "loadFromCache P r2 w0 = Inr c"
      using loadFromCache_cong[OF f, of w0 w0 P] c by simp
    from parseSpecification_hit[OF this True] eq show ?thesis
      by simp
  next
    case False
    note miss = parseSpecification_miss[OF c False]
    from miss first obtain spec where p: "parseFromSource P r1 w0 = Inr spec"
      and v1: "v1 = js_of_spec spec" and w1: "w1 = snd (cacheSpecification P r1 w0 spec)"
      by (cases "parseFromSource P r1 w0") simp_all
    from cacheSpecification_world[of P r1 w0 spec] w1
    have src: "source w1 = source w0"
      and cch: "cache w1 = cache w0 \<or>
        (\<exists>t. JSON_stringify P (js_of_spec spec) = Inr t \<and>
           cache w1 = Some \<lparr>mtime = now r1, content = t\<rparr>)"
      by simp_all
    have p2: "parseFromSource P r2 w1 = Inr spec"
      using parseFromSource_cong[OF fs src, of P] p by simp
    obtain c2 where c2: "loadFromCache P r2 w1 = Inr c2"
      using loadFromCache_returns[of P r2 w1] by (elim exE)
    have "fst (parseSpecification P r2 w1) = Inr v1"
    proof (cases "truthy c2")
      case False
      from parseSpecification_miss[OF c2 False] p2 v1 show ?thesis
        by simp
    next
      case True
      have "c2 = v1"
        using cch
      proof (elim disjE exE conjE)
        assume "cache w1 = cache w0"
        from loadFromCache_cong[OF f this src, of P] c c2 have "c2 = c"
          by simp
        with True False show ?thesis by simp
      next
        fix t
        assume t: "JSON_stringify P (js_of_spec spec) = Inr t"
          and w: "cache w1 = Some \<lparr>mtime = now r1, content = t\<rparr>"
        from rt[of t] t v1 have "JSON_parse P t = Inr v1" by simp
        from loadFromCache_written[OF w this, of r2] c2 True show ?thesis
          by auto
      qed
      with parseSpecification_hit[OF c2 True] show ?thesis
        by simp
    qed
    with src show ?thesis by simp
  qed
qed

text \<open>
  A first call without a cache file parses the schema and writes the cache; the second
  call is served from that cache and returns the same value.
\<close>

theorem second_call_returns_same_value_witness:
  "parseSpecification example_platform (no_faults 3000) world_without_cache =
     (Inr (js_of_spec example_spec), world_without_cache
        \<lparr>cache := Some \<lparr>mtime = 3000, content = example_json_text\<rparr>\<rparr>) \<and>
   loadFromCache example_platform (no_faults 4000)
     (world_without_cache
        \<lparr>cache := Some \<lparr>mtime = 3000, content = example_json_text\<rparr>\<rparr>) =
     Inr (js_of_spec example_spec) \<and>
   fst (parseSpecification example_platform (no_faults 4000)
     (world_without_cache
        \<lparr>cache := Some \<lparr>mtime = 3000, content = example_json_text\<rparr>\<rparr>)) =
     Inr (js_of_spec example_spec)"
proof -
  let ?w1 = "world_without_cache
        \<lparr>cache := Some \<lparr>mtime = 3000, content = example_json_text\<rparr>\<rparr>"
  let ?v = "js_of_spec example_spec"
  have first: "parseSpecification example_platform (no_faults 3000) world_without_cache =
     (Inr ?v, ?w1)"
    by code_simp
  have load: "loadFromCache example_platform (no_faults 4000) ?w1 = Inr ?v"
    using example_json_text_neq
    by (simp add: loadFromCache_cases fs_access_def fs_stat_def fs_readFile_def
        world_without_cache_def schema_file_def no_faults_def example_platform_def)
  have rt: "\<forall>t. JSON_stringify example_platform ?v = Inr t \<longrightarrow>
      JSON_parse example_platform t = Inr ?v"
    using example_json_text_neq by (simp add: example_platform_def)
  have h: "parseSpecification example_platform (no_faults 3000) world_without_cache =
      (Inr ?v, ?w1) \<and>
   fault_access (no_faults 4000) = fault_access (no_faults 3000) \<and>
   fault_stat_cache (no_faults 4000) = fault_stat_cache (no_faults 3000) \<and>
   fault_stat_source (no_faults 4000) = fault_stat_source (no_faults 3000) \<and>
   fault_readFile_cache (no_faults 4000) = fault_readFile_cache (no_faults 3000) \<and>
   fault_readFile_source (no_faults 4000) = fault_readFile_source (no_faults 3000) \<and>
   (\<forall>t. JSON_stringify example_platform ?v = Inr t \<longrightarrow>
      JSON_parse example_platform t = Inr ?v)"
    using first rt by (simp add: no_faults_def)
  from second_call_returns_same_value[where P = example_platform and ?r1.0 = "no_faults 3000" and ?w0.0 = world_without_cache
      and ?v1.0 = ?v and ?w1.0 = ?w1 and ?r2.0 = "no_faults 4000", THEN mp, OF h]
  have "fst (parseSpecification example_platform (no_faults 4000) ?w1) = Inr ?v"
    by simp
  with first load show ?thesis by simp
qed

section \<open>Properties of the error-handling wrapper\<close>



end
